theory Spec2Isabelle
  imports Complex_Main
begin

section \<open>Values\<close>

text \<open>
  Optional string-valued properties (\<open>source\<close>, \<open>target\<close>, \<open>sourceHandle\<close>,
  \<open>targetHandle\<close>) can be absent, \<open>null\<close> or a string. Strict equality \<open>===\<close> on them is
  equality of this datatype; \<open>!v\<close> is \<open>\<not> truthy v\<close>; interpolation into a template literal
  is \<open>toString\<close>.
\<close>

datatype jsstr = Undefined | Null | Str string

fun truthy :: "jsstr \<Rightarrow> bool" where
  "truthy (Str s) = (s \<noteq> [])"
| "truthy Undefined = False"
| "truthy Null = False"

fun toString :: "jsstr \<Rightarrow> string" where
  "toString Undefined = ''undefined''"
| "toString Null = ''null''"
| "toString (Str s) = s"

text \<open>
  A JavaScript number, idealised: \<open>Num r\<close> is the finite number \<open>r\<close>, exact (no rounding,
  no overflow), with \<open>Num 0\<close> the positive zero; \<open>NegZero\<close> is the negative zero; \<open>PInf\<close>
  and \<open>NInf\<close> are \<open>\<plusminus>Infinity\<close>; \<open>NaN\<close> is the invalid result. An operation never yields
  \<open>Num 0\<close> where the language yields \<open>-0\<close>.
\<close>

datatype jsnum = Num real | NegZero | PInf | NInf | NaN

fun negative :: "jsnum \<Rightarrow> bool" where
  "negative (Num a) = (a < 0)"
| "negative NegZero = True"
| "negative NInf = True"
| "negative PInf = False"
| "negative NaN = False"

fun is_zero :: "jsnum \<Rightarrow> bool" where
  "is_zero (Num a) = (a = 0)"
| "is_zero NegZero = True"
| "is_zero PInf = False"
| "is_zero NInf = False"
| "is_zero NaN = False"

fun is_inf :: "jsnum \<Rightarrow> bool" where
  "is_inf PInf = True"
| "is_inf NInf = True"
| "is_inf (Num a) = False"
| "is_inf NegZero = False"
| "is_inf NaN = False"

fun finite_value :: "jsnum \<Rightarrow> real" where
  "finite_value (Num a) = a"
| "finite_value NegZero = 0"
| "finite_value PInf = 0"
| "finite_value NInf = 0"
| "finite_value NaN = 0"

definition signed_zero :: "bool \<Rightarrow> jsnum" where
  "signed_zero neg = (if neg then NegZero else Num 0)"

definition signed_inf :: "bool \<Rightarrow> jsnum" where
  "signed_inf neg = (if neg then NInf else PInf)"

fun jneg :: "jsnum \<Rightarrow> jsnum" where
  "jneg (Num a) = (if a = 0 then NegZero else Num (- a))"
| "jneg NegZero = Num 0"
| "jneg PInf = NInf"
| "jneg NInf = PInf"
| "jneg NaN = NaN"

text \<open>
  Addition: two finite numbers that cancel give \<open>+0\<close>, and only \<open>-0 + -0\<close> is \<open>-0\<close>.
\<close>

fun jadd :: "jsnum \<Rightarrow> jsnum \<Rightarrow> jsnum" where
  "jadd (Num a) (Num b) = Num (a + b)"
| "jadd NaN _ = NaN"
| "jadd _ NaN = NaN"
| "jadd PInf NInf = NaN"
| "jadd NInf PInf = NaN"
| "jadd PInf _ = PInf"
| "jadd _ PInf = PInf"
| "jadd NInf _ = NInf"
| "jadd _ NInf = NInf"
| "jadd NegZero b = b"
| "jadd a NegZero = a"

definition jsub :: "jsnum \<Rightarrow> jsnum \<Rightarrow> jsnum" where
  "jsub a b = jadd a (jneg b)"

text \<open>
  Multiplication and division: the sign of a zero or infinite result is the exclusive or
  of the signs of the operands.
\<close>

definition jmul :: "jsnum \<Rightarrow> jsnum \<Rightarrow> jsnum" where
  "jmul a b =
     (if a = NaN \<or> b = NaN then NaN
      else if (is_inf a \<and> is_zero b) \<or> (is_zero a \<and> is_inf b) then NaN
      else if is_inf a \<or> is_inf b then signed_inf (negative a \<noteq> negative b)
      else if is_zero a \<or> is_zero b then signed_zero (negative a \<noteq> negative b)
      else Num (finite_value a * finite_value b))"

definition jdiv :: "jsnum \<Rightarrow> jsnum \<Rightarrow> jsnum" where
  "jdiv a b =
     (if a = NaN \<or> b = NaN then NaN
      else if is_inf a then (if is_inf b then NaN else signed_inf (negative a \<noteq> negative b))
      else if is_inf b then signed_zero (negative a \<noteq> negative b)
      else if is_zero b
           then (if is_zero a then NaN else signed_inf (negative a \<noteq> negative b))
      else if is_zero a then signed_zero (negative a \<noteq> negative b)
      else Num (finite_value a / finite_value b))"

text \<open>
  \<open>a < b\<close> and \<open>a <= b\<close>: every comparison with \<open>NaN\<close> is false, and the two zeros compare
  equal.
\<close>

fun jlt :: "jsnum \<Rightarrow> jsnum \<Rightarrow> bool" where
  "jlt NaN _ = False"
| "jlt _ NaN = False"
| "jlt _ NInf = False"
| "jlt PInf _ = False"
| "jlt NInf _ = True"
| "jlt _ PInf = True"
| "jlt a b = (finite_value a < finite_value b)"

fun jle :: "jsnum \<Rightarrow> jsnum \<Rightarrow> bool" where
  "jle NaN _ = False"
| "jle _ NaN = False"
| "jle NInf _ = True"
| "jle _ PInf = True"
| "jle _ NInf = False"
| "jle PInf _ = False"
| "jle a b = (finite_value a \<le> finite_value b)"

text \<open>
  \<open>Math.min\<close>, \<open>Math.max\<close> and \<open>Math.ceil\<close>. \<open>Math.min\<close> of the two zeros is \<open>-0\<close> and
  \<open>Math.max\<close> of them is \<open>+0\<close>; \<open>Math.ceil\<close> of a number between \<open>-1\<close> and \<open>0\<close> is \<open>-0\<close>.
\<close>

definition Math_min :: "jsnum \<Rightarrow> jsnum \<Rightarrow> jsnum" where
  "Math_min a b =
     (if a = NaN \<or> b = NaN then NaN
      else if jlt a b then a else if jlt b a then b
      else if a = NegZero then a else b)"

definition Math_max :: "jsnum \<Rightarrow> jsnum \<Rightarrow> jsnum" where
  "Math_max a b =
     (if a = NaN \<or> b = NaN then NaN
      else if jlt a b then b else if jlt b a then a
      else if a = NegZero then b else a)"

fun Math_ceil :: "jsnum \<Rightarrow> jsnum" where
  "Math_ceil (Num a) = (if - 1 < a \<and> a < 0 then NegZero else Num (of_int \<lceil>a\<rceil>))"
| "Math_ceil a = a"

section \<open>Data model\<close>

record XYPosition =
  pos_x :: jsnum
  pos_y :: jsnum

record XYZPosition =
  xyz_x :: jsnum
  xyz_y :: jsnum
  xyz_z :: jsnum

text \<open>A dimension is \<open>None\<close> while it is \<open>null\<close> (before the first measurement).\<close>

record Dimensions =
  dim_width :: "jsnum option"
  dim_height :: "jsnum option"

record Rect =
  rect_x :: jsnum
  rect_y :: jsnum
  rect_width :: jsnum
  rect_height :: jsnum

record Box =
  box_x :: jsnum
  box_y :: jsnum
  box_x2 :: jsnum
  box_y2 :: jsnum

text \<open>
  A graph node. \<open>parentNode\<close> is a reference to the parent object; as a datatype the chain
  of parents is finite and acyclic. \<open>selectable\<close> is \<open>None\<close> when the property is absent.
\<close>

datatype GraphNode = GraphNode
  (node_id: string)
  (position: XYPosition)
  (computedPosition: XYZPosition)
  (dimensions: Dimensions)
  (parentNode: "GraphNode option")
  (selectable: "bool option")
  (dragging: bool)

text \<open>
  An edge; \<open>edge_rest\<close> holds every own property besides the id and the four endpoint
  properties, as the object spread copies them.
\<close>

record Edge =
  edge_id :: string
  source :: jsstr
  target :: jsstr
  sourceHandle :: jsstr
  targetHandle :: jsstr
  edge_rest :: "(string \<times> string) list"

record Connection =
  conn_source :: jsstr
  conn_target :: jsstr
  conn_sourceHandle :: jsstr
  conn_targetHandle :: jsstr

text \<open>An element of the collection is a node or an edge (it has \<open>source\<close> and \<open>target\<close>).\<close>

datatype element = NodeEl GraphNode | EdgeEl Edge

fun elem_id :: "element \<Rightarrow> string" where
  "elem_id (NodeEl n) = node_id n"
| "elem_id (EdgeEl e) = edge_id e"

fun isEdge :: "element \<Rightarrow> bool" where
  "isEdge (EdgeEl e) = True"
| "isEdge (NodeEl n) = False"

definition isNode :: "element \<Rightarrow> bool" where
  "isNode el = (\<not> isEdge el)"

section \<open>Graph model\<close>

datatype dir = Source | Target

fun endpoint :: "dir \<Rightarrow> Edge \<Rightarrow> jsstr" where
  "endpoint Source e = source e"
| "endpoint Target e = target e"

text \<open>
  \<open>getConnectedElements\<close>: the filter keeps the edges with \<open>e.source === node.id\<close> whatever
  \<open>dir\<close> is; the map yields \<open>e[dir]\<close> (or \<open>false\<close>, here \<open>None\<close>, for a non-edge).
\<close>

fun source_is :: "string \<Rightarrow> element \<Rightarrow> bool" where
  "source_is i (EdgeEl e) = (source e = Str i)"
| "source_is i (NodeEl n) = False"

fun prop_of :: "dir \<Rightarrow> element \<Rightarrow> jsstr option" where
  "prop_of d (EdgeEl e) = Some (endpoint d e)"
| "prop_of d (NodeEl n) = None"

definition getConnectedElements :: "element \<Rightarrow> element list \<Rightarrow> dir \<Rightarrow> element list" where
  "getConnectedElements node elements d =
     (if \<not> isNode node then []
      else let ids = map (prop_of d) (filter (source_is (elem_id node)) elements)
           in filter (\<lambda>e. Some (Str (elem_id e)) \<in> set ids) elements)"

definition getOutgoers :: "element \<Rightarrow> element list \<Rightarrow> element list" where
  "getOutgoers node elements = getConnectedElements node elements Target"

definition getIncomers :: "element \<Rightarrow> element list \<Rightarrow> element list" where
  "getIncomers node elements = getConnectedElements node elements Source"

text \<open>
  The mutating operations return an array and change the array they were given:
  \<open>returned\<close> is the value returned, \<open>elements_after\<close> the contents of the argument array
  afterwards, \<open>console_warn\<close> the diagnostics written.
\<close>

record Outcome =
  returned :: "element list"
  elements_after :: "element list"
  console_warn :: "string list"

text \<open>
  \<open>removeElements\<close>. A node stands in with \<open>target = ''\<close> and \<open>source = ''\<close>. The \<open>forEach\<close>
  visits the indices \<open>0 .. len - 1\<close> of the original length, skips an index that no longer
  exists, and each \<open>splice(i, 1)\<close> shortens the array under it.
\<close>

fun target_or_empty :: "element \<Rightarrow> jsstr" where
  "target_or_empty (EdgeEl e) = target e"
| "target_or_empty (NodeEl n) = Str []"

fun source_or_empty :: "element \<Rightarrow> jsstr" where
  "source_or_empty (EdgeEl e) = source e"
| "source_or_empty (NodeEl n) = Str []"

definition shouldRemove :: "string list \<Rightarrow> element \<Rightarrow> bool" where
  "shouldRemove nodeIdsToRemove el =
     (elem_id el \<in> set nodeIdsToRemove
      \<or> target_or_empty el \<in> Str ` set nodeIdsToRemove
      \<or> source_or_empty el \<in> Str ` set nodeIdsToRemove)"

fun forEach_splice :: "string list \<Rightarrow> nat \<Rightarrow> nat \<Rightarrow> element list \<Rightarrow> element list" where
  "forEach_splice ids 0 i els = els"
| "forEach_splice ids (Suc k) i els =
     (if i < length els \<and> shouldRemove ids (els ! i)
      then forEach_splice ids k (Suc i) (take i els @ drop (Suc i) els)
      else forEach_splice ids k (Suc i) els)"

definition removeElements :: "element list \<Rightarrow> element list \<Rightarrow> Outcome" where
  "removeElements elementsToRemove elements =
     (let nodeIdsToRemove = map elem_id elementsToRemove;
          elements' = forEach_splice nodeIdsToRemove (length elements) 0 elements
      in \<lparr>returned = filter (\<lambda>el. \<not> shouldRemove nodeIdsToRemove el) elements',
          elements_after = elements',
          console_warn = []\<rparr>)"

definition getEdgeId :: "Connection \<Rightarrow> string" where
  "getEdgeId c =
     ''vueflow__edge-'' @ toString (conn_source c) @ toString (conn_sourceHandle c)
       @ ''-'' @ toString (conn_target c) @ toString (conn_targetHandle c)"

fun same_connection :: "Edge \<Rightarrow> element \<Rightarrow> bool" where
  "same_connection edge (EdgeEl el) =
     (source el = source edge \<and> target el = target edge
      \<and> (sourceHandle el = sourceHandle edge
           \<or> (\<not> truthy (sourceHandle el) \<and> \<not> truthy (sourceHandle edge)))
      \<and> (targetHandle el = targetHandle edge
           \<or> (\<not> truthy (targetHandle el) \<and> \<not> truthy (targetHandle edge))))"
| "same_connection edge (NodeEl n) = False"

definition connectionExists :: "Edge \<Rightarrow> element list \<Rightarrow> bool" where
  "connectionExists edge elements = list_ex (same_connection edge) elements"

text \<open>The first argument of \<open>addEdge\<close> is an edge (it has an \<open>id\<close>) or a connection.\<close>

datatype edgeParams = AnEdge Edge | AConnection Connection

fun params_source :: "edgeParams \<Rightarrow> jsstr" where
  "params_source (AnEdge e) = source e"
| "params_source (AConnection c) = conn_source c"

fun params_target :: "edgeParams \<Rightarrow> jsstr" where
  "params_target (AnEdge e) = target e"
| "params_target (AConnection c) = conn_target c"

fun edge_of_params :: "edgeParams \<Rightarrow> Edge" where
  "edge_of_params (AnEdge e) = e"
| "edge_of_params (AConnection c) =
     \<lparr>edge_id = getEdgeId c, source = conn_source c, target = conn_target c,
      sourceHandle = conn_sourceHandle c, targetHandle = conn_targetHandle c,
      edge_rest = []\<rparr>"

definition addEdge :: "edgeParams \<Rightarrow> element list \<Rightarrow> Outcome" where
  "addEdge edgeParams elements =
     (if \<not> truthy (params_source edgeParams) \<or> \<not> truthy (params_target edgeParams)
      then \<lparr>returned = elements, elements_after = elements,
            console_warn = [''Can't create edge. An edge needs a source and a target.'']\<rparr>
      else let edge = edge_of_params edgeParams
           in if connectionExists edge elements
              then \<lparr>returned = elements, elements_after = elements, console_warn = []\<rparr>
              else let pushed = elements @ [EdgeEl edge]
                   in \<lparr>returned = pushed @ [EdgeEl edge], elements_after = pushed,
                       console_warn = []\<rparr>)"

text \<open>
  \<open>updateEdge\<close>. \<open>find\<close> yields the first edge with the old id and \<open>indexOf\<close> of that object
  is the first index holding it, so the \<open>splice\<close> overwrites the first position where the
  predicate holds.
\<close>

fun has_edge_id :: "string \<Rightarrow> element \<Rightarrow> bool" where
  "has_edge_id i (EdgeEl e) = (edge_id e = i)"
| "has_edge_id i (NodeEl n) = False"

fun indexOf_first :: "('a \<Rightarrow> bool) \<Rightarrow> 'a list \<Rightarrow> nat" where
  "indexOf_first P [] = 0"
| "indexOf_first P (x # xs) = (if P x then 0 else Suc (indexOf_first P xs))"

definition updateEdge :: "Edge \<Rightarrow> Connection \<Rightarrow> element list \<Rightarrow> Outcome" where
  "updateEdge oldEdge newConnection elements =
     (if \<not> truthy (conn_source newConnection) \<or> \<not> truthy (conn_target newConnection)
      then \<lparr>returned = elements, elements_after = elements,
            console_warn = [''Can't create new edge. An edge needs a source and a target.'']\<rparr>
      else case List.find (has_edge_id (edge_id oldEdge)) elements of
        None \<Rightarrow>
          \<lparr>returned = elements, elements_after = elements,
           console_warn = [''The old edge with id='' @ edge_id oldEdge @ '' does not exist.'']\<rparr>
      | Some foundEdge \<Rightarrow>
          let edge = oldEdge\<lparr>edge_id := getEdgeId newConnection,
                             source := conn_source newConnection,
                             target := conn_target newConnection,
                             sourceHandle := conn_sourceHandle newConnection,
                             targetHandle := conn_targetHandle newConnection\<rparr>;
              spliced = elements[indexOf_first (has_edge_id (edge_id oldEdge)) elements
                                   := EdgeEl edge]
          in \<lparr>returned = filter (\<lambda>e. elem_id e \<noteq> edge_id oldEdge) spliced @ [EdgeEl edge],
              elements_after = spliced,
              console_warn = []\<rparr>)"

section \<open>Geometry kernel\<close>

type_synonym Transform = "jsnum \<times> jsnum \<times> jsnum"

definition clamp :: "jsnum \<Rightarrow> jsnum \<Rightarrow> jsnum \<Rightarrow> jsnum" where
  "clamp val mn mx = Math_min (Math_max val mn) mx"

definition getBoundsOfBoxes :: "Box \<Rightarrow> Box \<Rightarrow> Box" where
  "getBoundsOfBoxes box1 box2 =
     \<lparr>box_x = Math_min (box_x box1) (box_x box2),
      box_y = Math_min (box_y box1) (box_y box2),
      box_x2 = Math_max (box_x2 box1) (box_x2 box2),
      box_y2 = Math_max (box_y2 box1) (box_y2 box2)\<rparr>"

definition rectToBox :: "Rect \<Rightarrow> Box" where
  "rectToBox r =
     \<lparr>box_x = rect_x r, box_y = rect_y r,
      box_x2 = jadd (rect_x r) (rect_width r),
      box_y2 = jadd (rect_y r) (rect_height r)\<rparr>"

definition boxToRect :: "Box \<Rightarrow> Rect" where
  "boxToRect b =
     \<lparr>rect_x = box_x b, rect_y = box_y b,
      rect_width = jsub (box_x2 b) (box_x b),
      rect_height = jsub (box_y2 b) (box_y b)\<rparr>"

text \<open>
  The object \<open>{ ...position, ...dimensions }\<close> handed to \<open>rectToBox\<close>. Its width and height
  are only ever added to a number there, where \<open>null\<close> converts to \<open>0\<close>.
\<close>

fun null_to_number :: "jsnum option \<Rightarrow> jsnum" where
  "null_to_number None = Num 0"
| "null_to_number (Some v) = v"

definition node_rect :: "GraphNode \<Rightarrow> Rect" where
  "node_rect node =
     \<lparr>rect_x = pos_x (position node), rect_y = pos_y (position node),
      rect_width = null_to_number (dim_width (dimensions node)),
      rect_height = null_to_number (dim_height (dimensions node))\<rparr>"

definition getRectOfNodes :: "GraphNode list \<Rightarrow> Rect" where
  "getRectOfNodes nodes =
     boxToRect
       (foldl (\<lambda>currBox node. getBoundsOfBoxes currBox (rectToBox (node_rect node)))
          \<lparr>box_x = PInf, box_y = PInf, box_x2 = NInf, box_y2 = NInf\<rparr> nodes)"

fun graphPosToZoomedPos :: "XYPosition \<Rightarrow> Transform \<Rightarrow> XYPosition" where
  "graphPosToZoomedPos p (tx, ty, tScale) =
     \<lparr>pos_x = jadd (jmul (pos_x p) tScale) tx, pos_y = jadd (jmul (pos_y p) tScale) ty\<rparr>"

text \<open>
  \<open>getNodesInside\<close>. The node list is typed: no entry is \<open>null\<close>, and every node carries a
  position and a dimensions object, so the destructuring defaults are not taken.
\<close>

definition node_inside :: "Box \<Rightarrow> bool \<Rightarrow> GraphNode \<Rightarrow> bool" where
  "node_inside rBox partially node =
     (if selectable node = Some False then False
      else
        let nBox = rectToBox (node_rect node);
            xOverlap = Math_max (Num 0)
              (jsub (Math_min (box_x2 rBox) (box_x2 nBox)) (Math_max (box_x rBox) (box_x nBox)));
            yOverlap = Math_max (Num 0)
              (jsub (Math_min (box_y2 rBox) (box_y2 nBox)) (Math_max (box_y rBox) (box_y nBox)));
            overlappingArea = Math_ceil (jmul xOverlap yOverlap)
        in case (dim_width (dimensions node), dim_height (dimensions node)) of
             (Some w, Some h) \<Rightarrow>
               if dragging node then True
               else if partially then jlt (Num 0) overlappingArea
               else jle (jmul w h) overlappingArea
           | _ \<Rightarrow> True)"

fun getNodesInside :: "GraphNode list \<Rightarrow> Rect \<Rightarrow> Transform \<Rightarrow> bool \<Rightarrow> GraphNode list" where
  "getNodesInside nodes rect (tx, ty, tScale) partially =
     (let rBox = rectToBox
            \<lparr>rect_x = jdiv (jsub (rect_x rect) tx) tScale,
             rect_y = jdiv (jsub (rect_y rect) ty) tScale,
             rect_width = jdiv (rect_width rect) tScale,
             rect_height = jdiv (rect_height rect) tScale\<rparr>
      in filter (node_inside rBox partially) nodes)"

text \<open>\<open>getTransformForBounds\<close>; an offset component is \<open>None\<close> when it is absent.\<close>

fun or_zero :: "jsnum option \<Rightarrow> jsnum" where
  "or_zero None = Num 0"
| "or_zero (Some v) = v"

definition getTransformForBounds ::
  "Rect \<Rightarrow> jsnum \<Rightarrow> jsnum \<Rightarrow> jsnum \<Rightarrow> jsnum \<Rightarrow> jsnum \<Rightarrow> jsnum option \<times> jsnum option \<Rightarrow> Transform"
where
  "getTransformForBounds bounds width height minZoom maxZoom padding offset =
     (let xZoom = jdiv width (jmul (rect_width bounds) (jadd (Num 1) padding));
          yZoom = jdiv height (jmul (rect_height bounds) (jadd (Num 1) padding));
          zoom = Math_min xZoom yZoom;
          clampedZoom = clamp zoom minZoom maxZoom;
          boundsCenterX = jadd (rect_x bounds) (jdiv (rect_width bounds) (Num 2));
          boundsCenterY = jadd (rect_y bounds) (jdiv (rect_height bounds) (Num 2));
          x = jadd (jsub (jdiv width (Num 2)) (jmul boundsCenterX clampedZoom))
                (or_zero (fst offset));
          y = jadd (jsub (jdiv height (Num 2)) (jmul boundsCenterY clampedZoom))
                (or_zero (snd offset))
      in (x, y, clampedZoom))"

section \<open>Nested position resolver\<close>

fun calculateXYZPosition :: "GraphNode \<Rightarrow> XYZPosition \<Rightarrow> XYZPosition" where
  "calculateXYZPosition (GraphNode i pos cpos dims None sel drg) result = result"
| "calculateXYZPosition (GraphNode i pos cpos dims (Some parent) sel drg) result =
     calculateXYZPosition parent
       \<lparr>xyz_x = jadd (xyz_x result) (pos_x (position parent)),
        xyz_y = jadd (xyz_y result) (pos_y (position parent)),
        xyz_z = (if jlt (xyz_z cpos) (xyz_z (computedPosition parent))
                 then jadd (xyz_z (computedPosition parent)) (Num 1)
                 else xyz_z cpos)\<rparr>"

text \<open>
  Modelled from the spec: the caller that starts \<open>calculateXYZPosition\<close> is not among the
  sources. The spec's resolver starts from the node's own local position and declared
  index ("if the node has no parent, its absolute position/stacking is its own local
  position/declared index").
\<close>

definition resolveAbsolutePosition :: "GraphNode \<Rightarrow> XYZPosition" where
  "resolveAbsolutePosition node =
     calculateXYZPosition node
       \<lparr>xyz_x = pos_x (position node), xyz_y = pos_y (position node),
        xyz_z = xyz_z (computedPosition node)\<rparr>"

section \<open>Drag session engine\<close>

text \<open>
  Pointer coordinates are finite numbers, here reals. \<open>getPointerPosition\<close>, \<open>getDragItems\<close>,
  \<open>calcNextPosition\<close>, \<open>calcAutoPan\<close>, \<open>panBy\<close> and the viewport are collaborators outside the
  sources: what they return at an event is part of the event.
\<close>

record PointerPosition =
  ptr_x :: real
  ptr_y :: real
  xSnapped :: real
  ySnapped :: real

record NodeDragItem =
  item_position :: "real \<times> real"
  distance :: "real \<times> real"

type_synonym calcNext = "NodeDragItem \<Rightarrow> real \<times> real \<Rightarrow> real \<times> real"

record AutoPan =
  movement :: "real \<times> real"
  panned :: bool
  zoom :: real

text \<open>
  \<open>EventStart p multiTouch items bounds\<close>: the pointer position, whether the source event is
  a \<open>touchmove\<close> with more than one touch, what \<open>getDragItems\<close> would return, and whether the
  container has a bounding rectangle. \<open>EventDrag p items ap calc\<close>: the pointer position,
  what \<open>getDragItems\<close> would return, what an auto-pan step would see, and \<open>calcNextPosition\<close>.
\<close>

datatype drag_event =
    EventStart PointerPosition bool "NodeDragItem list" bool
  | EventDrag PointerPosition "NodeDragItem list" AutoPan calcNext
  | EventEnd PointerPosition
  | AnimationFrame AutoPan calcNext

datatype callback = OnStart | OnDrag | OnStop | OnClick

record Settings =
  nodeDragThreshold :: real
  autoPanOnNodeDrag :: bool
  snapToGrid :: bool
  snapGrid :: "real \<times> real"
  onClick_given :: bool

text \<open>
  The variables of the closure. \<open>containerBounds\<close> and \<open>dragEvent\<close> record whether the
  variable is non-null; \<open>autoPanScheduled\<close> whether the frame requested under \<open>autoPanId\<close> is
  outstanding; a component of \<open>lastPos\<close> is \<open>None\<close> while it is undefined.
\<close>

record DragState =
  dragging_ref :: bool
  dragItems :: "NodeDragItem list"
  containerBounds :: bool
  lastPos :: "real option \<times> real option"
  dragEvent :: bool
  dragStarted :: bool
  autoPanScheduled :: bool
  autoPanStarted :: bool

definition Math_round :: "real \<Rightarrow> real" where
  "Math_round v = of_int \<lfloor>v + 1 / 2\<rfloor>"

definition or_0 :: "real option \<Rightarrow> real" where
  "or_0 v = (case v of None \<Rightarrow> 0 | Some r \<Rightarrow> r)"

definition move_item :: "Settings \<Rightarrow> calcNext \<Rightarrow> real \<times> real \<Rightarrow> NodeDragItem \<Rightarrow> NodeDragItem" where
  "move_item cfg calc p n =
     (let nextPosition = (fst p - fst (distance n), snd p - snd (distance n));
          nextPosition' =
            (if snapToGrid cfg
             then (fst (snapGrid cfg) * Math_round (fst nextPosition / fst (snapGrid cfg)),
                   snd (snapGrid cfg) * Math_round (snd nextPosition / snd (snapGrid cfg)))
             else nextPosition)
      in n\<lparr>item_position := calc n nextPosition'\<rparr>)"

definition updateNodes ::
  "Settings \<Rightarrow> calcNext \<Rightarrow> real \<times> real \<Rightarrow> DragState \<Rightarrow> DragState \<times> callback list" where
  "updateNodes cfg calc p s =
     (let moved = map (move_item cfg calc p) (dragItems s);
          hasChange = list_ex (\<lambda>n. item_position n \<noteq> item_position (move_item cfg calc p n))
                        (dragItems s);
          s1 = s\<lparr>lastPos := (Some (fst p), Some (snd p)), dragItems := moved\<rparr>
      in if \<not> hasChange then (s1, [])
         else (s1\<lparr>dragging_ref := True\<rparr>, if dragEvent s1 then [OnDrag] else []))"

definition autoPan :: "Settings \<Rightarrow> AutoPan \<Rightarrow> calcNext \<Rightarrow> DragState \<Rightarrow> DragState \<times> callback list" where
  "autoPan cfg ap calc s =
     (if \<not> containerBounds s then (s, [])
      else
        let (s1, out) =
              (if fst (movement ap) \<noteq> 0 \<or> snd (movement ap) \<noteq> 0
               then let nextPos = (or_0 (fst (lastPos s)) - fst (movement ap) / zoom ap,
                                   or_0 (snd (lastPos s)) - snd (movement ap) / zoom ap)
                    in if panned ap then updateNodes cfg calc nextPos s else (s, [])
               else (s, []))
        in (s1\<lparr>autoPanScheduled := True\<rparr>, out))"

definition startDrag :: "PointerPosition \<Rightarrow> NodeDragItem list \<Rightarrow> DragState \<Rightarrow> DragState \<times> callback list" where
  "startDrag pointerPos items s =
     (s\<lparr>dragStarted := True, lastPos := (Some (ptr_x pointerPos), Some (ptr_y pointerPos)),
        dragItems := items\<rparr>,
      if items \<noteq> [] then [OnStart] else [])"

definition pointer_distance :: "PointerPosition \<Rightarrow> DragState \<Rightarrow> real" where
  "pointer_distance pointerPos s =
     (let x = xSnapped pointerPos - or_0 (fst (lastPos s));
          y = ySnapped pointerPos - or_0 (snd (lastPos s))
      in sqrt (x * x + y * y))"

definition eventStart ::
  "Settings \<Rightarrow> PointerPosition \<Rightarrow> bool \<Rightarrow> NodeDragItem list \<Rightarrow> bool \<Rightarrow> DragState
     \<Rightarrow> DragState \<times> callback list" where
  "eventStart cfg pointerPos multiTouch items bounds s =
     (if multiTouch then (s, [])
      else
        let (s1, out) = (if nodeDragThreshold cfg = 0 then startDrag pointerPos items s
                         else (s, []))
        in (s1\<lparr>lastPos := (Some (ptr_x pointerPos), Some (ptr_y pointerPos)),
               containerBounds := bounds\<rparr>, out))"

definition eventDrag ::
  "Settings \<Rightarrow> PointerPosition \<Rightarrow> NodeDragItem list \<Rightarrow> AutoPan \<Rightarrow> calcNext \<Rightarrow> DragState
     \<Rightarrow> DragState \<times> callback list" where
  "eventDrag cfg pointerPos items ap calc s =
     (let (s1, out1) =
            (if \<not> autoPanStarted s \<and> dragStarted s \<and> autoPanOnNodeDrag cfg
             then autoPan cfg ap calc (s\<lparr>autoPanStarted := True\<rparr>)
             else (s, []));
          (s2, out2) =
            (if \<not> dragStarted s1 \<and> nodeDragThreshold cfg < pointer_distance pointerPos s1
             then startDrag pointerPos items s1
             else (s1, []));
          (s3, out3) =
            (if (fst (lastPos s2) \<noteq> Some (xSnapped pointerPos)
                 \<or> snd (lastPos s2) \<noteq> Some (ySnapped pointerPos))
                \<and> dragItems s2 \<noteq> [] \<and> dragStarted s2
             then updateNodes cfg calc (ptr_x pointerPos, ptr_y pointerPos)
                    (s2\<lparr>dragEvent := True\<rparr>)
             else (s2, []))
      in (s3, out1 @ out2 @ out3))"

definition eventEnd :: "Settings \<Rightarrow> PointerPosition \<Rightarrow> DragState \<Rightarrow> DragState \<times> callback list" where
  "eventEnd cfg pointerPos s =
     (if \<not> dragStarted s
      then (s, if pointer_distance pointerPos s \<noteq> 0
                  \<and> pointer_distance pointerPos s \<le> nodeDragThreshold cfg
                  \<and> onClick_given cfg
               then [OnClick] else [])
      else (s\<lparr>dragging_ref := False, autoPanStarted := False, dragStarted := False,
              autoPanScheduled := False\<rparr>,
            if dragItems s \<noteq> [] then [OnStop] else []))"

text \<open>
  One event of the host. An animation frame runs \<open>autoPan\<close> only while a frame requested by
  \<open>requestAnimationFrame\<close> is outstanding (\<open>autoPanScheduled\<close>); \<open>cancelAnimationFrame\<close> clears
  it. Only the four callbacks of the composable are recorded; the calls into the store
  (selection, \<open>updateNodePositions\<close>) are not.
\<close>

fun step :: "Settings \<Rightarrow> DragState \<Rightarrow> drag_event \<Rightarrow> DragState \<times> callback list" where
  "step cfg s (EventStart p multiTouch items bounds) = eventStart cfg p multiTouch items bounds s"
| "step cfg s (EventDrag p items ap calc) = eventDrag cfg p items ap calc s"
| "step cfg s (EventEnd p) = eventEnd cfg p s"
| "step cfg s (AnimationFrame ap calc) =
     (if autoPanScheduled s then autoPan cfg ap calc (s\<lparr>autoPanScheduled := False\<rparr>)
      else (s, []))"

fun run :: "Settings \<Rightarrow> DragState \<Rightarrow> drag_event list \<Rightarrow> DragState \<times> callback list" where
  "run cfg s [] = (s, [])"
| "run cfg s (e # es) =
     (let (s1, out) = step cfg s e; (s2, outs) = run cfg s1 es in (s2, out @ outs))"

definition initial :: DragState where
  "initial = \<lparr>dragging_ref = False, dragItems = [], containerBounds = False,
     lastPos = (None, None), dragEvent = False, dragStarted = False,
     autoPanScheduled = False, autoPanStarted = False\<rparr>"

section \<open>Concrete inputs\<close>

definition plain_node :: "string \<Rightarrow> GraphNode" where
  "plain_node i = GraphNode i \<lparr>pos_x = Num 0, pos_y = Num 0\<rparr>
     \<lparr>xyz_x = Num 0, xyz_y = Num 0, xyz_z = Num 0\<rparr>
     \<lparr>dim_width = Some (Num 0), dim_height = Some (Num 0)\<rparr> None None False"

definition plain_edge :: "string \<Rightarrow> string \<Rightarrow> string \<Rightarrow> Edge" where
  "plain_edge i s t = \<lparr>edge_id = i, source = Str s, target = Str t,
     sourceHandle = Undefined, targetHandle = Undefined, edge_rest = []\<rparr>"

definition plain_connection :: "string \<Rightarrow> string \<Rightarrow> Connection" where
  "plain_connection s t = \<lparr>conn_source = Str s, conn_target = Str t,
     conn_sourceHandle = Undefined, conn_targetHandle = Undefined\<rparr>"




definition far_parent :: GraphNode where
  "far_parent = GraphNode ''far'' \<lparr>pos_x = Num 100, pos_y = Num 100\<rparr>
     \<lparr>xyz_x = Num 100, xyz_y = Num 100, xyz_z = Num 0\<rparr>
     \<lparr>dim_width = Some (Num 50), dim_height = Some (Num 50)\<rparr> None None False"

definition kid :: GraphNode where
  "kid = GraphNode ''kid'' \<lparr>pos_x = Num 5, pos_y = Num 5\<rparr>
     \<lparr>xyz_x = Num 105, xyz_y = Num 105, xyz_z = Num 1\<rparr>
     \<lparr>dim_width = Some (Num 10), dim_height = Some (Num 10)\<rparr> (Some far_parent) None False"

definition nested_node :: "string \<Rightarrow> real \<Rightarrow> real \<Rightarrow> real \<Rightarrow> GraphNode option \<Rightarrow> GraphNode" where
  "nested_node i px py z parent = GraphNode i \<lparr>pos_x = Num px, pos_y = Num py\<rparr>
     \<lparr>xyz_x = Num px, xyz_y = Num py, xyz_z = Num z\<rparr>
     \<lparr>dim_width = Some (Num 0), dim_height = Some (Num 0)\<rparr> parent None False"

definition parent3 :: GraphNode where
  "parent3 = nested_node ''p'' 10 10 3 None"

definition child1 :: GraphNode where
  "child1 = nested_node ''c'' 5 5 1 (Some parent3)"

definition child3 :: GraphNode where
  "child3 = nested_node ''d'' 5 5 3 (Some parent3)"

definition grandchild5 :: GraphNode where
  "grandchild5 = nested_node ''g'' 1 1 5 (Some child1)"

definition still_item :: NodeDragItem where
  "still_item = \<lparr>item_position = (0, 0), distance = (0, 0)\<rparr>"

definition at_point :: "real \<Rightarrow> real \<Rightarrow> PointerPosition" where
  "at_point a b = \<lparr>ptr_x = a, ptr_y = b, xSnapped = a, ySnapped = b\<rparr>"

definition threshold5 :: Settings where
  "threshold5 = \<lparr>nodeDragThreshold = 5, autoPanOnNodeDrag = False, snapToGrid = False,
     snapGrid = (1, 1), onClick_given = True\<rparr>"

definition no_pan :: AutoPan where
  "no_pan = \<lparr>movement = (0, 0), panned = False, zoom = 1\<rparr>"

definition unclamped :: calcNext where
  "unclamped n q = q"

section \<open>The claims' own notions\<close>

text \<open>
  What \<open>removeElements\<close> keeps, in the words of the specification: an element whose id
  is not among the ids to remove and that is not an edge with its source or target
  among them.
\<close>

definition kept_by_claim :: "string set \<Rightarrow> element \<Rightarrow> bool" where
  "kept_by_claim ids el =
     (elem_id el \<notin> ids \<and>
      (case el of EdgeEl e \<Rightarrow> source e \<notin> Str ` ids \<and> target e \<notin> Str ` ids
               | NodeEl n \<Rightarrow> True))"

text \<open>
  The scale of \<open>getTransformForBounds\<close> in ordinary arithmetic: the smaller of the two
  ratios, clamped into the zoom range.
\<close>

definition fit_scale :: "real \<Rightarrow> real \<Rightarrow> real \<Rightarrow> real \<Rightarrow> real \<Rightarrow> real \<Rightarrow> real \<Rightarrow> real" where
  "fit_scale W H bw bh p lo hi = min (max (min (W / (bw * (1 + p))) (H / (bh * (1 + p)))) lo) hi"

text \<open>
  The value of a finite number, the two zeros both being \<open>0\<close>.
\<close>

fun number_of :: "jsnum \<Rightarrow> real option" where
  "number_of (Num a) = Some a"
| "number_of NegZero = Some 0"
| "number_of PInf = None"
| "number_of NInf = None"
| "number_of NaN = None"



text \<open>
  Callbacks in order: no drag-progress callback comes before the first drag-start
  callback.
\<close>

fun start_first :: "callback list \<Rightarrow> bool" where
  "start_first [] = True"
| "start_first (OnStart # cs) = True"
| "start_first (OnDrag # cs) = False"
| "start_first (OnStop # cs) = start_first cs"
| "start_first (OnClick # cs) = start_first cs"

text \<open>
  Between gestures no drag has started and no auto-pan frame is requested. A gesture is
  pending while every move stays within the threshold of the position of the press.
\<close>

definition idle :: "DragState \<Rightarrow> bool" where
  "idle s = (\<not> dragStarted s \<and> \<not> autoPanScheduled s)"

definition start_distance :: "PointerPosition \<Rightarrow> PointerPosition \<Rightarrow> real" where
  "start_distance p0 p =
     sqrt ((xSnapped p - ptr_x p0) * (xSnapped p - ptr_x p0)
           + (ySnapped p - ptr_y p0) * (ySnapped p - ptr_y p0))"

fun pending_move :: "Settings \<Rightarrow> PointerPosition \<Rightarrow> drag_event \<Rightarrow> bool" where
  "pending_move cfg p0 (EventDrag p items ap calc) = (start_distance p0 p \<le> nodeDragThreshold cfg)"
| "pending_move cfg p0 (AnimationFrame ap calc) = True"
| "pending_move cfg p0 (EventStart p m items b) = False"
| "pending_move cfg p0 (EventEnd p) = False"

definition before_start :: "bool \<Rightarrow> DragState \<Rightarrow> bool" where
  "before_start started s =
     ((autoPanScheduled s \<longrightarrow> dragStarted s)
      \<and> (dragStarted s \<and> dragItems s \<noteq> [] \<longrightarrow> started))"

section \<open>Properties of the graph model\<close>

subsection \<open>Connectivity queries\<close>

lemma getOutgoers_set:
  assumes "isNode node"
  shows "set (getOutgoers node els)
    = {el \<in> set els. \<exists>e. EdgeEl e \<in> set els \<and> source e = Str (elem_id node)
                                \<and> target e = Str (elem_id el)}"
proof -
  let ?out = "{e \<in> set els. source_is (elem_id node) e}"
  have "(Some (Str (elem_id x)) \<in> prop_of Target ` ?out)
     = (\<exists>e. EdgeEl e \<in> set els \<and> source e = Str (elem_id node) \<and> target e = Str (elem_id x))"
    (is "?lhs = ?rhs") for x
  proof
    assume ?lhs
    then obtain y where y: "y \<in> set els" "source_is (elem_id node) y"
      "prop_of Target y = Some (Str (elem_id x))" by auto
    show ?rhs
    proof (cases y)
      case (EdgeEl e)
      with y show ?thesis by auto
    next
      case (NodeEl n)
      with y show ?thesis by simp
    qed
  next
    assume ?rhs
    then obtain e where "EdgeEl e \<in> set els" "source e = Str (elem_id node)"
      "target e = Str (elem_id x)"
      by blast
    then have "EdgeEl e \<in> ?out" "prop_of Target (EdgeEl e) = Some (Str (elem_id x))"
      by auto
    then show ?lhs by (metis image_eqI)
  qed
  then show ?thesis using assms
    by (auto simp: getOutgoers_def getConnectedElements_def Let_def)
qed

text \<open>
  C1. \<open>getIncomers\<close> selects the edges by their source, not by their target: with the
  single edge \<open>b \<rightarrow> a\<close> it finds no incomer of \<open>a\<close>, and with the single edge \<open>a \<rightarrow> b\<close> it
  returns \<open>a\<close> itself.
\<close>

theorem getIncomers_uses_source:
  "getIncomers (NodeEl (plain_node ''a''))
     [NodeEl (plain_node ''a''), NodeEl (plain_node ''b''), EdgeEl (plain_edge ''e1'' ''b'' ''a'')]
     = []
   \<and> getIncomers (NodeEl (plain_node ''a''))
     [NodeEl (plain_node ''a''), NodeEl (plain_node ''b''), EdgeEl (plain_edge ''e2'' ''a'' ''b'')]
     = [NodeEl (plain_node ''a'')]"
  by (simp add: getIncomers_def getConnectedElements_def isNode_def plain_node_def plain_edge_def)

subsection \<open>Cascading removal\<close>

lemma filter_remove_nth:
  assumes "i < length xs" and "\<not> P (xs ! i)"
  shows "filter P (take i xs @ drop (Suc i) xs) = filter P xs"
proof -
  have "filter P xs = filter P (take i xs @ xs ! i # drop (Suc i) xs)"
    using assms(1) by (simp add: id_take_nth_drop [symmetric])
  also have "\<dots> = filter P (take i xs @ drop (Suc i) xs)"
    using assms(2) by simp
  finally show ?thesis by simp
qed

lemma filter_forEach_splice:
  "filter (\<lambda>el. \<not> shouldRemove ids el) (forEach_splice ids k i els)
     = filter (\<lambda>el. \<not> shouldRemove ids el) els"
proof (induction k arbitrary: i els)
  case 0
  show ?case by simp
next
  case (Suc k)
  show ?case
  proof (cases "i < length els \<and> shouldRemove ids (els ! i)")
    case True
    then have "filter (\<lambda>el. \<not> shouldRemove ids el) (take i els @ drop (Suc i) els)
        = filter (\<lambda>el. \<not> shouldRemove ids el) els"
      by (intro filter_remove_nth) auto
    with True Suc.IH show ?thesis by simp
  next
    case False
    with Suc.IH show ?thesis by auto
  qed
qed

lemma returned_removeElements:
  "returned (removeElements rs els)
     = filter (\<lambda>el. \<not> shouldRemove (map elem_id rs) el) els"
  by (simp add: removeElements_def Let_def filter_forEach_splice)

lemma shouldRemove_kept:
  "[] \<notin> set ids \<Longrightarrow> shouldRemove ids el = (\<not> kept_by_claim (set ids) el)"
  by (cases el) (auto simp: shouldRemove_def kept_by_claim_def)

text \<open>
  C5, as amended. When no element to remove has the empty string as its id,
  \<open>removeElements\<close> returns exactly the elements, in their order and unchanged, whose id
  is not among the ids to remove and that are not edges with source or target among them.
\<close>

theorem removeElements_cascade:
  assumes "[] \<notin> elem_id ` set toRemove"
  shows "returned (removeElements toRemove els)
           = filter (kept_by_claim (elem_id ` set toRemove)) els"
proof -
  have "[] \<notin> set (map elem_id toRemove)" using assms by simp
  then have "\<And>el. shouldRemove (map elem_id toRemove) el
      = (\<not> kept_by_claim (set (map elem_id toRemove)) el)"
    by (rule shouldRemove_kept)
  then show ?thesis by (simp add: returned_removeElements)
qed

theorem removeElements_cascade_witness:
  "[] \<notin> elem_id ` set [NodeEl (plain_node ''a'')] \<and>
   returned (removeElements [NodeEl (plain_node ''a'')]
      [NodeEl (plain_node ''a''), NodeEl (plain_node ''b''),
       EdgeEl (plain_edge ''e1'' ''a'' ''b''), EdgeEl (plain_edge ''e2'' ''b'' ''a''),
       EdgeEl (plain_edge ''e3'' ''b'' ''b'')])
     = [NodeEl (plain_node ''b''), EdgeEl (plain_edge ''e3'' ''b'' ''b'')]"
proof -
  have h: "[] \<notin> elem_id ` set [NodeEl (plain_node ''a'')]"
    by (simp add: plain_node_def)
  show ?thesis
    using h removeElements_cascade [OF h, of "[NodeEl (plain_node ''a''), NodeEl (plain_node ''b''),
       EdgeEl (plain_edge ''e1'' ''a'' ''b''), EdgeEl (plain_edge ''e2'' ''b'' ''a''),
       EdgeEl (plain_edge ''e3'' ''b'' ''b'')]"]
    by (simp add: kept_by_claim_def plain_node_def plain_edge_def)
qed

text \<open>
  A node is tested with the empty string in place of a source and a target, so removing
  an element whose id is the empty string removes every node: here node \<open>a\<close> is not to be
  removed, and is not returned.
\<close>

theorem removeElements_empty_id_counterexample:
  "returned (removeElements [NodeEl (plain_node [])] [NodeEl (plain_node ''a'')])
     \<noteq> filter (kept_by_claim (elem_id ` set [NodeEl (plain_node [])])) [NodeEl (plain_node ''a'')]"
  by (simp add: returned_removeElements shouldRemove_def kept_by_claim_def plain_node_def)

subsection \<open>Adding and updating edges\<close>

lemma addEdge_duplicate:
  "truthy (params_source p) \<Longrightarrow> truthy (params_target p) \<Longrightarrow>
   connectionExists (edge_of_params p) els \<Longrightarrow>
   addEdge p els = \<lparr>returned = els, elements_after = els, console_warn = []\<rparr>"
  by (simp add: addEdge_def)

lemma addEdge_fresh:
  "truthy (params_source p) \<Longrightarrow> truthy (params_target p) \<Longrightarrow>
   \<not> connectionExists (edge_of_params p) els \<Longrightarrow>
   addEdge p els = \<lparr>returned = els @ [EdgeEl (edge_of_params p), EdgeEl (edge_of_params p)],
                    elements_after = els @ [EdgeEl (edge_of_params p)], console_warn = []\<rparr>"
  by (simp add: addEdge_def Let_def)

lemma addEdge_again:
  "returned (addEdge p (returned (addEdge p els))) = returned (addEdge p els)"
  by (auto simp: addEdge_def Let_def connectionExists_def list_ex_iff)

text \<open>
  C2. Adding the connection \<open>a \<rightarrow> b\<close> to the empty collection returns a collection that
  holds the new edge twice: the edge is pushed onto the array, and the array is then
  copied with the edge appended once more.
\<close>

theorem addEdge_appends_twice:
  "returned (addEdge (AConnection (plain_connection ''a'' ''b'')) [])
     = [EdgeEl (plain_edge ''vueflow__edge-aundefined-bundefined'' ''a'' ''b''),
        EdgeEl (plain_edge ''vueflow__edge-aundefined-bundefined'' ''a'' ''b'')]"
  by (simp add: addEdge_def connectionExists_def getEdgeId_def plain_connection_def
      plain_edge_def Let_def)

theorem addEdge_appends_twice_witness:
  "length (returned (addEdge (AConnection (plain_connection ''a'' ''b'')) [])) = 2"
  using addEdge_appends_twice by simp

lemma indexOf_first_less:
  "list_ex P xs \<Longrightarrow> indexOf_first P xs < length xs"
  by (induction xs) auto

lemma updateEdge_found:
  assumes "truthy (conn_source c)" and "truthy (conn_target c)"
    and "list_ex (has_edge_id (edge_id old)) els"
    and "new = old\<lparr>edge_id := getEdgeId c, source := conn_source c, target := conn_target c,
                    sourceHandle := conn_sourceHandle c, targetHandle := conn_targetHandle c\<rparr>"
  shows "updateEdge old c els =
     \<lparr>returned = filter (\<lambda>e. elem_id e \<noteq> edge_id old)
                    (els[indexOf_first (has_edge_id (edge_id old)) els := EdgeEl new])
                  @ [EdgeEl new],
      elements_after = els[indexOf_first (has_edge_id (edge_id old)) els := EdgeEl new],
      console_warn = []\<rparr>"
proof -
  from assms(3) have "List.find (has_edge_id (edge_id old)) els \<noteq> None"
    by (auto simp: find_None_iff list_ex_iff)
  then obtain f where "List.find (has_edge_id (edge_id old)) els = Some f" by blast
  with assms(1,2,4) show ?thesis
    by (simp add: updateEdge_def Let_def)
qed

lemma updateEdge_twice:
  assumes "truthy (conn_source c)" and "truthy (conn_target c)"
    and "list_ex (has_edge_id (edge_id old)) els"
    and "new = old\<lparr>edge_id := getEdgeId c, source := conn_source c, target := conn_target c,
                    sourceHandle := conn_sourceHandle c, targetHandle := conn_targetHandle c\<rparr>"
    and "getEdgeId c \<noteq> edge_id old"
  shows "2 \<le> count_list (returned (updateEdge old c els)) (EdgeEl new)"
proof -
  let ?i = "indexOf_first (has_edge_id (edge_id old)) els"
  let ?sp = "els[?i := EdgeEl new]"
  have "?i < length els" using assms(3) by (rule indexOf_first_less)
  then have "EdgeEl new \<in> set ?sp" by (simp add: set_update_memI)
  moreover have "elem_id (EdgeEl new) \<noteq> edge_id old" using assms(4,5) by simp
  ultimately have "EdgeEl new \<in> set (filter (\<lambda>e. elem_id e \<noteq> edge_id old) ?sp)" by simp
  then have "1 \<le> count_list (filter (\<lambda>e. elem_id e \<noteq> edge_id old) ?sp) (EdgeEl new)"
    by (metis count_list_0_iff not_less_eq_eq One_nat_def le_zero_eq)
  then show ?thesis
    unfolding updateEdge_found [OF assms(1-4)] by simp
qed

text \<open>
  C3. Updating the edge \<open>e1\<close> (\<open>a \<rightarrow> b\<close>) to the connection \<open>a \<rightarrow> c\<close> returns a collection
  that holds the new edge twice: it replaces the old edge in place, and is appended again
  after the filter.
\<close>

theorem updateEdge_inserts_twice:
  "returned (updateEdge (plain_edge ''e1'' ''a'' ''b'') (plain_connection ''a'' ''c'')
      [NodeEl (plain_node ''a''), EdgeEl (plain_edge ''e1'' ''a'' ''b'')])
     = [NodeEl (plain_node ''a''),
        EdgeEl (plain_edge ''vueflow__edge-aundefined-cundefined'' ''a'' ''c''),
        EdgeEl (plain_edge ''vueflow__edge-aundefined-cundefined'' ''a'' ''c'')]"
  by (simp add: updateEdge_def getEdgeId_def plain_connection_def plain_edge_def plain_node_def
      Let_def)

theorem updateEdge_inserts_twice_witness:
  "length (filter (same_connection (plain_edge ''x'' ''a'' ''c''))
     (returned (updateEdge (plain_edge ''e1'' ''a'' ''b'') (plain_connection ''a'' ''c'')
        [NodeEl (plain_node ''a''), EdgeEl (plain_edge ''e1'' ''a'' ''b'')]))) = 2"
  using updateEdge_inserts_twice by (simp add: plain_edge_def)

text \<open>
  C9. \<open>addEdge\<close> with a connection whose source or target is missing, and \<open>updateEdge\<close>
  with a new connection whose source or target is missing or with an old edge whose id
  no edge of the collection has, return the collection they were given, leave it as it
  was, and write one diagnostic.
\<close>

theorem soft_failure:
  "(\<not> truthy (params_source p) \<or> \<not> truthy (params_target p) \<longrightarrow>
      returned (addEdge p els) = els \<and> elements_after (addEdge p els) = els
      \<and> length (console_warn (addEdge p els)) = 1)
   \<and> (\<not> truthy (conn_source c) \<or> \<not> truthy (conn_target c)
       \<or> \<not> list_ex (has_edge_id (edge_id old)) els \<longrightarrow>
      returned (updateEdge old c els) = els \<and> elements_after (updateEdge old c els) = els
      \<and> length (console_warn (updateEdge old c els)) = 1)"
proof -
  have "List.find (has_edge_id (edge_id old)) els = None"
    if "\<not> list_ex (has_edge_id (edge_id old)) els"
    using that by (simp add: find_None_iff list_ex_iff)
  then show ?thesis
    by (auto simp: addEdge_def updateEdge_def)
qed

theorem soft_failure_witness:
  "\<not> truthy (params_source (AConnection \<lparr>conn_source = Undefined, conn_target = Str ''b'',
        conn_sourceHandle = Undefined, conn_targetHandle = Undefined\<rparr>))
   \<and> returned (addEdge (AConnection \<lparr>conn_source = Undefined, conn_target = Str ''b'',
        conn_sourceHandle = Undefined, conn_targetHandle = Undefined\<rparr>)
        [NodeEl (plain_node ''b'')]) = [NodeEl (plain_node ''b'')]
   \<and> \<not> list_ex (has_edge_id (edge_id (plain_edge ''e9'' ''a'' ''b''))) [NodeEl (plain_node ''b'')]
   \<and> returned (updateEdge (plain_edge ''e9'' ''a'' ''b'') (plain_connection ''a'' ''b'')
        [NodeEl (plain_node ''b'')]) = [NodeEl (plain_node ''b'')]
   \<and> length (console_warn (updateEdge (plain_edge ''e9'' ''a'' ''b'') (plain_connection ''a'' ''b'')
        [NodeEl (plain_node ''b'')])) = 1"
  using soft_failure [of "AConnection \<lparr>conn_source = Undefined, conn_target = Str ''b'',
        conn_sourceHandle = Undefined, conn_targetHandle = Undefined\<rparr>"
        "[NodeEl (plain_node ''b'')]" "plain_connection ''a'' ''b''" "plain_edge ''e9'' ''a'' ''b''"]
  by (simp add: plain_edge_def)

section \<open>Properties of the geometry kernel\<close>

subsection \<open>Arithmetic on finite numbers\<close>


lemma jsub_number: "number_of r = Some v \<Longrightarrow> jsub (Num a) r = Num (a - v)"
  by (cases r) (auto simp: jsub_def)

lemma jadd_number: "number_of r = Some v \<Longrightarrow> jadd r (Num b) = Num (v + b)"
  by (cases r) auto

lemma jmul_number:
  "number_of r = Some v \<Longrightarrow> number_of (jmul (Num a) r) = Some (a * v)"
  by (cases r) (auto simp: jmul_def signed_zero_def)


lemma jmul_Num_number: "number_of (jmul (Num a) (Num b)) = Some (a * b)"
  by (auto simp: jmul_def signed_zero_def)

lemma jdiv_Num_pos: "0 < b \<Longrightarrow> jdiv (Num a) (Num b) = Num (a / b)"
  by (auto simp: jdiv_def signed_zero_def)

lemma jdiv_number:
  "number_of d = Some b \<Longrightarrow> b \<noteq> 0 \<Longrightarrow> number_of (jdiv (Num a) d) = Some (a / b)"
  by (cases d) (auto simp: jdiv_def signed_zero_def)

lemma Math_min_Num: "Math_min (Num a) (Num b) = Num (min a b)"
  by (auto simp: Math_min_def)

lemma Math_max_Num: "Math_max (Num a) (Num b) = Num (max a b)"
  by (auto simp: Math_max_def)

lemma Math_min_number:
  "number_of a = Some x \<Longrightarrow> number_of b = Some y \<Longrightarrow> number_of (Math_min a b) = Some (min x y)"
  by (cases a; cases b) (auto simp: Math_min_def)

lemma Math_max_number:
  "number_of a = Some x \<Longrightarrow> number_of b = Some y \<Longrightarrow> number_of (Math_max a b) = Some (max x y)"
  by (cases a; cases b) (auto simp: Math_max_def)

lemma clamp_number:
  "number_of v = Some x \<Longrightarrow> number_of (clamp v (Num lo) (Num hi)) = Some (min (max x lo) hi)"
  by (simp add: clamp_def Math_min_number Math_max_number)

lemma Math_ceil_nonneg: "0 \<le> a \<Longrightarrow> Math_ceil (Num a) = Num (of_int \<lceil>a\<rceil>)"
  by simp




subsection \<open>Bounding rectangle\<close>

text \<open>
  C10. The bounding rectangle of no nodes is the rectangle form of the box the fold starts
  from: \<open>x = y = +Infinity\<close> and \<open>width = height = -Infinity\<close>.
\<close>

theorem getRectOfNodes_empty:
  "getRectOfNodes [] = \<lparr>rect_x = PInf, rect_y = PInf, rect_width = NInf, rect_height = NInf\<rparr>"
  by (simp add: getRectOfNodes_def boxToRect_def jsub_def)

subsection \<open>Fit to view\<close>

lemma or_zero_offset:
  "or_zero (map_option Num ox) = Num (case ox of None \<Rightarrow> 0 | Some d \<Rightarrow> d)"
  by (cases ox) simp_all

text \<open>
  C8. For a finite bounds rectangle of positive width \<open>bw\<close> and height \<open>bh\<close>, a finite
  viewport, zoom range and padding, and an offset whose components are finite or absent:
  the scale returned by \<open>getTransformForBounds\<close> has the value of the smaller of
  \<open>W / (bw * (1 + p))\<close> and \<open>H / (bh * (1 + p))\<close>, clamped into the zoom range; with padding
  \<open>-1\<close> and a positive viewport both ratios are \<open>+Infinity\<close> and the scale is the maximal
  zoom. The translation is the centre of the viewport minus the scaled centre of the
  bounds plus the offset given (\<open>0\<close> for an absent component), so that the centre of the
  bounds maps to the centre of the viewport plus the offset.
\<close>

theorem getTransformForBounds_fit:
  assumes "0 < bw" and "0 < bh"
    and "bounds = \<lparr>rect_x = Num x0, rect_y = Num y0, rect_width = Num bw, rect_height = Num bh\<rparr>"
    and "t = getTransformForBounds bounds (Num W) (Num H) (Num lo) (Num hi) (Num p)
               (map_option Num ox, map_option Num oy)"
    and "dx = (case ox of None \<Rightarrow> 0 | Some d \<Rightarrow> d)"
    and "dy = (case oy of None \<Rightarrow> 0 | Some d \<Rightarrow> d)"
  shows "(1 + p \<noteq> 0 \<longrightarrow> number_of (snd (snd t)) = Some (fit_scale W H bw bh p lo hi))
       \<and> (1 + p = 0 \<and> 0 < W \<and> 0 < H \<longrightarrow> snd (snd t) = Num hi)
       \<and> (\<forall>z. number_of (snd (snd t)) = Some z \<longrightarrow>
              fst t = Num (W / 2 - (x0 + bw / 2) * z + dx)
            \<and> fst (snd t) = Num (H / 2 - (y0 + bh / 2) * z + dy)
            \<and> graphPosToZoomedPos \<lparr>pos_x = Num (x0 + bw / 2), pos_y = Num (y0 + bh / 2)\<rparr> t
                = \<lparr>pos_x = Num (W / 2 + dx), pos_y = Num (H / 2 + dy)\<rparr>)"
proof -
  define xZoom where "xZoom = jdiv (Num W) (jmul (Num bw) (jadd (Num 1) (Num p)))"
  define yZoom where "yZoom = jdiv (Num H) (jmul (Num bh) (jadd (Num 1) (Num p)))"
  define sc where "sc = clamp (Math_min xZoom yZoom) (Num lo) (Num hi)"
  have t: "t = (jadd (jsub (Num (W / 2)) (jmul (Num (x0 + bw / 2)) sc)) (Num dx),
                jadd (jsub (Num (H / 2)) (jmul (Num (y0 + bh / 2)) sc)) (Num dy), sc)"
    unfolding assms(4) assms(3) getTransformForBounds_def Let_def sc_def xZoom_def yZoom_def
    by (simp add: jdiv_Num_pos or_zero_offset assms(5,6))
  have scale: "snd (snd t) = sc" by (simp add: t)
  have a: "number_of sc = Some (fit_scale W H bw bh p lo hi)" if "1 + p \<noteq> 0"
  proof -
    have nz: "bw * (1 + p) \<noteq> 0" "bh * (1 + p) \<noteq> 0"
      using that assms(1,2) by simp_all
    have "number_of xZoom = Some (W / (bw * (1 + p)))"
      unfolding xZoom_def using nz(1) by (simp add: jdiv_number jmul_Num_number)
    moreover have "number_of yZoom = Some (H / (bh * (1 + p)))"
      unfolding yZoom_def using nz(2) by (simp add: jdiv_number jmul_Num_number)
    ultimately show ?thesis
      unfolding sc_def fit_scale_def by (simp add: clamp_number Math_min_number)
  qed
  have b: "sc = Num hi" if "1 + p = 0" "0 < W" "0 < H"
  proof -
    have "xZoom = PInf" "yZoom = PInf"
      unfolding xZoom_def yZoom_def using that assms(1,2)
      by (simp_all add: jmul_def jdiv_def signed_zero_def signed_inf_def)
    then show ?thesis
      unfolding sc_def by (simp add: clamp_def Math_min_def Math_max_def)
  qed
  have c: "fst t = Num (W / 2 - (x0 + bw / 2) * z + dx)
            \<and> fst (snd t) = Num (H / 2 - (y0 + bh / 2) * z + dy)
            \<and> graphPosToZoomedPos \<lparr>pos_x = Num (x0 + bw / 2), pos_y = Num (y0 + bh / 2)\<rparr> t
                = \<lparr>pos_x = Num (W / 2 + dx), pos_y = Num (H / 2 + dy)\<rparr>"
    if "number_of sc = Some z" for z
  proof -
    have mx: "number_of (jmul (Num (x0 + bw / 2)) sc) = Some ((x0 + bw / 2) * z)"
      and my: "number_of (jmul (Num (y0 + bh / 2)) sc) = Some ((y0 + bh / 2) * z)"
      using that by (simp_all add: jmul_number)
    have tx: "fst t = Num (W / 2 - (x0 + bw / 2) * z + dx)"
      and ty: "fst (snd t) = Num (H / 2 - (y0 + bh / 2) * z + dy)"
      unfolding t by (simp_all add: jsub_number [OF mx] jsub_number [OF my])
    have "graphPosToZoomedPos \<lparr>pos_x = Num (x0 + bw / 2), pos_y = Num (y0 + bh / 2)\<rparr> t
        = \<lparr>pos_x = jadd (jmul (Num (x0 + bw / 2)) sc) (fst t),
           pos_y = jadd (jmul (Num (y0 + bh / 2)) sc) (fst (snd t))\<rparr>"
      unfolding t by simp
    also have "\<dots> = \<lparr>pos_x = Num (W / 2 + dx), pos_y = Num (H / 2 + dy)\<rparr>"
      unfolding tx ty by (simp add: jadd_number [OF mx] jadd_number [OF my])
    finally show ?thesis using tx ty by simp
  qed
  from a b c show ?thesis unfolding scale by blast
qed

text \<open>
  The example of the specification: bounds \<open>(0, 0, 100, 100)\<close> in a viewport of
  \<open>1000 \<times> 1000\<close> with padding \<open>0.1\<close> and zoom range \<open>[0.1, 2]\<close>. With the offset
  \<open>(30, 40)\<close> the transform is \<open>(430, 440, 2)\<close> and the centre \<open>(50, 50)\<close> maps to
  \<open>(530, 540)\<close>; without an offset the transform is \<open>(400, 400, 2)\<close> and the centre maps to
  \<open>(500, 500)\<close>.
\<close>

theorem getTransformForBounds_fit_witness:
  "getTransformForBounds
      \<lparr>rect_x = Num 0, rect_y = Num 0, rect_width = Num 100, rect_height = Num 100\<rparr>
      (Num 1000) (Num 1000) (Num 0.1) (Num 2) (Num 0.1) (Some (Num 30), Some (Num 40))
     = (Num 430, Num 440, Num 2)
   \<and> graphPosToZoomedPos \<lparr>pos_x = Num 50, pos_y = Num 50\<rparr> (Num 430, Num 440, Num 2)
     = \<lparr>pos_x = Num 530, pos_y = Num 540\<rparr>
   \<and> getTransformForBounds
      \<lparr>rect_x = Num 0, rect_y = Num 0, rect_width = Num 100, rect_height = Num 100\<rparr>
      (Num 1000) (Num 1000) (Num 0.1) (Num 2) (Num 0.1) (None, None)
     = (Num 400, Num 400, Num 2)
   \<and> graphPosToZoomedPos \<lparr>pos_x = Num 50, pos_y = Num 50\<rparr> (Num 400, Num 400, Num 2)
     = \<lparr>pos_x = Num 500, pos_y = Num 500\<rparr>"
proof -
  let ?b = "\<lparr>rect_x = Num 0, rect_y = Num 0, rect_width = Num 100, rect_height = Num 100\<rparr>"
  let ?t = "getTransformForBounds ?b (Num 1000) (Num 1000) (Num 0.1) (Num 2) (Num 0.1)
              (Some (Num 30), Some (Num 40))"
  let ?u = "getTransformForBounds ?b (Num 1000) (Num 1000) (Num 0.1) (Num 2) (Num 0.1)
              (None, None)"
  have pos: "(0::real) < 100" by simp
  note withoff = getTransformForBounds_fit [OF pos pos, where bounds = ?b and ?x0.0 = 0
      and ?y0.0 = 0 and t = ?t and W = 1000 and H = 1000 and lo = "0.1" and hi = 2 and p = "0.1"
      and ox = "Some 30" and oy = "Some 40" and dx = 30 and dy = 40]
  note nooff = getTransformForBounds_fit [OF pos pos, where bounds = ?b and ?x0.0 = 0
      and ?y0.0 = 0 and t = ?u and W = 1000 and H = 1000 and lo = "0.1" and hi = 2 and p = "0.1"
      and ox = None and oy = None and dx = 0 and dy = 0]
  have st: "number_of (snd (snd ?t)) = Some 2"
    using withoff by (simp add: fit_scale_def)
  have su: "number_of (snd (snd ?u)) = Some 2"
    using nooff by (simp add: fit_scale_def)
  have vt: "snd (snd ?t) = Num 2" and vu: "snd (snd ?u) = Num 2"
    by (simp_all add: getTransformForBounds_def Let_def clamp_def jdiv_def jmul_def
        Math_min_Num Math_max_Num)
  have "fst ?t = Num 430 \<and> fst (snd ?t) = Num 440
      \<and> graphPosToZoomedPos \<lparr>pos_x = Num 50, pos_y = Num 50\<rparr> ?t
          = \<lparr>pos_x = Num 530, pos_y = Num 540\<rparr>"
    using withoff st by simp
  moreover have "fst ?u = Num 400 \<and> fst (snd ?u) = Num 400
      \<and> graphPosToZoomedPos \<lparr>pos_x = Num 50, pos_y = Num 50\<rparr> ?u
          = \<lparr>pos_x = Num 500, pos_y = Num 500\<rparr>"
    using nooff su by simp
  ultimately show ?thesis
    using vt vu by (metis prod.collapse)
qed

subsection \<open>Nodes inside a rectangle\<close>


lemma node_inside_null:
  "selectable node \<noteq> Some False \<Longrightarrow>
   dim_width (dimensions node) = None \<or> dim_height (dimensions node) = None \<Longrightarrow>
   node_inside rBox partially node"
  by (auto simp: node_inside_def Let_def split: option.splits)




lemmas evaluate_numbers = node_inside_def rectToBox_def node_rect_def jsub_def jdiv_def jmul_def
  Math_max_def Math_min_def signed_zero_def signed_inf_def Let_def



text \<open>
  Two behaviours the statement above leaves aside. The box of a node is taken at its
  \<open>position\<close>, which for a nested node is relative to the parent: the node \<open>kid\<close> at absolute
  \<open>(105, 105)\<close> is not found inside \<open>(100, 100, 20, 20)\<close> and is found inside
  \<open>(0, 0, 20, 20)\<close>. And a node as \<open>parseNode\<close> seeds it, with width and height \<open>0\<close> rather than
  \<open>null\<close>, is not included with \<open>partially\<close> when it lies outside the rectangle.
\<close>

lemma getNodesInside_nested_local_position:
  "resolveAbsolutePosition kid = \<lparr>xyz_x = Num 105, xyz_y = Num 105, xyz_z = Num 1\<rparr>
   \<and> getNodesInside [kid]
        \<lparr>rect_x = Num 100, rect_y = Num 100, rect_width = Num 20, rect_height = Num 20\<rparr>
        (Num 0, Num 0, Num 1) False = []
   \<and> getNodesInside [kid]
        \<lparr>rect_x = Num 0, rect_y = Num 0, rect_width = Num 20, rect_height = Num 20\<rparr>
        (Num 0, Num 0, Num 1) False = [kid]"
  by (simp add: kid_def far_parent_def resolveAbsolutePosition_def evaluate_numbers)

lemma getNodesInside_seeded_dimensions:
  "getNodesInside [plain_node ''fresh'']
        \<lparr>rect_x = Num 100, rect_y = Num 100, rect_width = Num 20, rect_height = Num 20\<rparr>
        (Num 0, Num 0, Num 1) True = []"
  by (simp add: plain_node_def evaluate_numbers)

section \<open>Properties of the nested position resolver\<close>

lemma jadd_assoc: "jadd (jadd a b) c = jadd a (jadd b c)"
  by (cases a; cases b; cases c) simp_all

lemma calculate_x_shift:
  "xyz_x (calculateXYZPosition node \<lparr>xyz_x = jadd a b, xyz_y = y1, xyz_z = z1\<rparr>)
     = jadd a (xyz_x (calculateXYZPosition node \<lparr>xyz_x = b, xyz_y = y2, xyz_z = z2\<rparr>))"
proof (induction node arbitrary: a b y1 z1 y2 z2)
  case (GraphNode i pos cpos dims par sel drg)
  show ?case
  proof (cases par)
    case None
    then show ?thesis by simp
  next
    case (Some p)
    then have "p \<in> set_option par" by simp
    from GraphNode.IH [OF this] Some show ?thesis
      by (simp add: jadd_assoc)
  qed
qed

lemma calculate_y_shift:
  "xyz_y (calculateXYZPosition node \<lparr>xyz_x = x1, xyz_y = jadd a b, xyz_z = z1\<rparr>)
     = jadd a (xyz_y (calculateXYZPosition node \<lparr>xyz_x = x2, xyz_y = b, xyz_z = z2\<rparr>))"
proof (induction node arbitrary: a b x1 z1 x2 z2)
  case (GraphNode i pos cpos dims par sel drg)
  show ?case
  proof (cases par)
    case None
    then show ?thesis by simp
  next
    case (Some p)
    then have "p \<in> set_option par" by simp
    from GraphNode.IH [OF this] Some show ?thesis
      by (simp add: jadd_assoc)
  qed
qed

lemma resolve_root:
  "parentNode node = None \<Longrightarrow>
   resolveAbsolutePosition node
     = \<lparr>xyz_x = pos_x (position node), xyz_y = pos_y (position node),
        xyz_z = xyz_z (computedPosition node)\<rparr>"
  by (cases node) (simp add: resolveAbsolutePosition_def)

lemma resolve_step:
  "parentNode node = Some parent \<Longrightarrow>
   resolveAbsolutePosition node
     = calculateXYZPosition parent
         \<lparr>xyz_x = jadd (pos_x (position node)) (pos_x (position parent)),
          xyz_y = jadd (pos_y (position node)) (pos_y (position parent)),
          xyz_z = (if jlt (xyz_z (computedPosition node)) (xyz_z (computedPosition parent))
                   then jadd (xyz_z (computedPosition parent)) (Num 1)
                   else xyz_z (computedPosition node))\<rparr>"
  by (cases node) (simp add: resolveAbsolutePosition_def)

lemma calculate_root: "parentNode node = None \<Longrightarrow> calculateXYZPosition node r = r"
  by (cases node) simp

lemma calculate_z_deep:
  "parentNode node = Some parent \<Longrightarrow>
   xyz_z (calculateXYZPosition node r1) = xyz_z (calculateXYZPosition node r2)"
proof (induction node arbitrary: r1 r2 parent)
  case (GraphNode i pos cpos dims par sel drg)
  then have par: "par = Some parent" by simp
  show ?case
  proof (cases "parentNode parent")
    case None
    with par show ?thesis by (simp add: calculate_root)
  next
    case (Some g)
    have "parent \<in> set_option par" using par by simp
    from GraphNode.IH [OF this Some] par show ?thesis by simp
  qed
qed

lemma resolve_z_deep:
  assumes "parentNode node = Some parent" and "parentNode parent = Some g"
  shows "xyz_z (resolveAbsolutePosition node) = xyz_z (resolveAbsolutePosition parent)"
  unfolding resolve_step [OF assms(1)] resolveAbsolutePosition_def [of parent]
  by (rule calculate_z_deep [OF assms(2)])

text \<open>
  C4, as amended. A node without a parent resolves to its own local position and declared
  index. A node with a parent resolves to its local position plus the resolved position of
  the parent; when the parent has no parent itself, the resolved index is the parent's
  index plus one if the parent's index is greater than the node's own, and the node's own
  index otherwise, which is \<open>max (parent + 1) own\<close> for integer indices that differ.
\<close>

theorem resolve_nested:
  "(parentNode node = None \<longrightarrow>
      resolveAbsolutePosition node
        = \<lparr>xyz_x = pos_x (position node), xyz_y = pos_y (position node),
           xyz_z = xyz_z (computedPosition node)\<rparr>)
   \<and> (parentNode node = Some parent \<longrightarrow>
        xyz_x (resolveAbsolutePosition node)
          = jadd (pos_x (position node)) (xyz_x (resolveAbsolutePosition parent))
      \<and> xyz_y (resolveAbsolutePosition node)
          = jadd (pos_y (position node)) (xyz_y (resolveAbsolutePosition parent))
      \<and> (parentNode parent = None \<longrightarrow>
           xyz_z (resolveAbsolutePosition node)
             = (if jlt (xyz_z (computedPosition node)) (xyz_z (resolveAbsolutePosition parent))
                then jadd (xyz_z (resolveAbsolutePosition parent)) (Num 1)
                else xyz_z (computedPosition node))
         \<and> (\<forall>i j. xyz_z (computedPosition node) = Num (of_int i)
                \<and> xyz_z (computedPosition parent) = Num (of_int j) \<and> i \<noteq> j
              \<longrightarrow> xyz_z (resolveAbsolutePosition node) = Num (of_int (max (j + 1) i)))))"
proof -
  have x: "xyz_x (resolveAbsolutePosition node)
          = jadd (pos_x (position node)) (xyz_x (resolveAbsolutePosition parent))"
    if "parentNode node = Some parent"
    unfolding resolve_step [OF that] resolveAbsolutePosition_def [of parent]
    by (rule calculate_x_shift)
  have y: "xyz_y (resolveAbsolutePosition node)
          = jadd (pos_y (position node)) (xyz_y (resolveAbsolutePosition parent))"
    if "parentNode node = Some parent"
    unfolding resolve_step [OF that] resolveAbsolutePosition_def [of parent]
    by (rule calculate_y_shift)
  have z: "xyz_z (resolveAbsolutePosition node)
             = (if jlt (xyz_z (computedPosition node)) (xyz_z (resolveAbsolutePosition parent))
                then jadd (xyz_z (resolveAbsolutePosition parent)) (Num 1)
                else xyz_z (computedPosition node))"
    if "parentNode node = Some parent" "parentNode parent = None"
    using that by (simp add: resolve_step resolve_root calculate_root)
  have m: "xyz_z (resolveAbsolutePosition node) = Num (of_int (max (j + 1) i))"
    if "parentNode node = Some parent" "parentNode parent = None"
      "xyz_z (computedPosition node) = Num (of_int i)"
      "xyz_z (computedPosition parent) = Num (of_int j)" "i \<noteq> j" for i j
    using that by (simp add: z resolve_root max_def)
  show ?thesis
    using x y z m by (simp add: resolve_root)
qed

text \<open>
  The examples of the specification: local position \<open>(5, 5)\<close> under a parent at
  \<open>(10, 10)\<close> resolves to \<open>(15, 15)\<close>, and declared index \<open>1\<close> under a parent of
  index \<open>3\<close> resolves to \<open>4\<close>.
\<close>

theorem resolve_nested_witness:
  "resolveAbsolutePosition parent3 = \<lparr>xyz_x = Num 10, xyz_y = Num 10, xyz_z = Num 3\<rparr>
   \<and> parentNode child1 = Some parent3 \<and> parentNode parent3 = None
   \<and> xyz_x (resolveAbsolutePosition child1) = Num 15
   \<and> xyz_y (resolveAbsolutePosition child1) = Num 15
   \<and> xyz_z (resolveAbsolutePosition child1) = Num 4"
  using resolve_nested [of parent3 parent3] resolve_nested [of child1 parent3]
  by (simp add: child1_def parent3_def nested_node_def)

text \<open>
  With equal indices \<open>3\<close> and \<open>3\<close> the child resolves to \<open>3\<close>, not to \<open>4\<close>; and a node of
  index \<open>5\<close> two levels deep resolves to the index of its parent's resolved position.
\<close>

theorem resolve_z_counterexample:
  "xyz_z (resolveAbsolutePosition child3)
     \<noteq> Math_max (jadd (xyz_z (resolveAbsolutePosition parent3)) (Num 1))
                 (xyz_z (computedPosition child3))
   \<and> xyz_z (resolveAbsolutePosition grandchild5)
     \<noteq> Math_max (jadd (xyz_z (resolveAbsolutePosition child1)) (Num 1))
                 (xyz_z (computedPosition grandchild5))"
  by (simp add: resolveAbsolutePosition_def child3_def child1_def grandchild5_def parent3_def
      nested_node_def Math_max_Num)

section \<open>Properties of the drag session engine\<close>

lemma start_first_append:
  "start_first (a @ b) = (start_first a \<and> (OnStart \<in> set a \<or> start_first b))"
  by (induction a rule: start_first.induct) auto

lemma updateNodes_state:
  "updateNodes cfg calc p s = (s', out) \<Longrightarrow>
   dragStarted s' = dragStarted s \<and> autoPanScheduled s' = autoPanScheduled s
   \<and> (dragItems s' = []) = (dragItems s = [])
   \<and> (out = [] \<or> out = [OnDrag] \<and> dragItems s \<noteq> [])"
  by (auto simp: updateNodes_def Let_def split: if_splits)

lemma autoPan_state:
  "autoPan cfg ap calc s = (s', out) \<Longrightarrow>
   dragStarted s' = dragStarted s
   \<and> (autoPanScheduled s' \<longrightarrow> autoPanScheduled s \<or> containerBounds s)
   \<and> (dragItems s' = []) = (dragItems s = [])
   \<and> (out = [] \<or> out = [OnDrag] \<and> dragItems s \<noteq> [])"
  by (auto simp: autoPan_def Let_def split: if_splits prod.splits dest!: updateNodes_state)

lemma startDrag_state:
  "startDrag p items s = (s', out) \<Longrightarrow>
   dragStarted s' \<and> autoPanScheduled s' = autoPanScheduled s \<and> dragItems s' = items
   \<and> out = (if items \<noteq> [] then [OnStart] else [])"
  by (auto simp: startDrag_def)

lemma eventStart_before_start:
  assumes "before_start st s" and "eventStart cfg p m items b s = (s', out)"
  shows "(st \<or> start_first out) \<and> before_start (st \<or> OnStart \<in> set out) s'"
  using assms
  by (auto simp: eventStart_def before_start_def startDrag_def split: if_splits)

lemma eventEnd_before_start:
  assumes "before_start st s" and "eventEnd cfg p s = (s', out)"
  shows "(st \<or> start_first out) \<and> before_start (st \<or> OnStart \<in> set out) s'"
  using assms
  by (auto simp: eventEnd_def before_start_def split: if_splits)

lemma frame_before_start:
  assumes "before_start st s" and "step cfg s (AnimationFrame ap calc) = (s', out)"
  shows "(st \<or> start_first out) \<and> before_start (st \<or> OnStart \<in> set out) s'"
proof (cases "autoPanScheduled s")
  case False
  with assms show ?thesis by auto
next
  case True
  with assms(2) have ap: "autoPan cfg ap calc (s\<lparr>autoPanScheduled := False\<rparr>) = (s', out)"
    by simp
  from True assms(1) have ds: "dragStarted s" by (simp add: before_start_def)
  from autoPan_state [OF ap] ds assms(1) show ?thesis
    by (auto simp: before_start_def)
qed

lemma eventDrag_before_start:
  assumes inv: "before_start st s" and run: "eventDrag cfg p items ap calc s = (s', out)"
  shows "(st \<or> start_first out) \<and> before_start (st \<or> OnStart \<in> set out) s'"
proof -
  obtain s1 o1 where a:
    "(if \<not> autoPanStarted s \<and> dragStarted s \<and> autoPanOnNodeDrag cfg
      then autoPan cfg ap calc (s\<lparr>autoPanStarted := True\<rparr>) else (s, [])) = (s1, o1)"
    by (rule prod.exhaust)
  obtain s2 o2 where b:
    "(if \<not> dragStarted s1 \<and> nodeDragThreshold cfg < pointer_distance p s1
      then startDrag p items s1 else (s1, [])) = (s2, o2)"
    by (rule prod.exhaust)
  obtain s3 o3 where c:
    "(if (fst (lastPos s2) \<noteq> Some (xSnapped p) \<or> snd (lastPos s2) \<noteq> Some (ySnapped p))
         \<and> dragItems s2 \<noteq> [] \<and> dragStarted s2
      then updateNodes cfg calc (ptr_x p, ptr_y p) (s2\<lparr>dragEvent := True\<rparr>)
      else (s2, [])) = (s3, o3)"
    by (rule prod.exhaust)
  have "eventDrag cfg p items ap calc s = (s3, o1 @ o2 @ o3)"
    unfolding eventDrag_def a Let_def prod.case b c ..
  with run have res: "s' = s3" "out = o1 @ o2 @ o3"
    by simp_all
  have A: "before_start st s1 \<and> (o1 = [] \<or> o1 = [OnDrag] \<and> st)"
  proof (cases "\<not> autoPanStarted s \<and> dragStarted s \<and> autoPanOnNodeDrag cfg")
    case True
    with a have "autoPan cfg ap calc (s\<lparr>autoPanStarted := True\<rparr>) = (s1, o1)" by simp
    from autoPan_state [OF this] True inv show ?thesis
      by (auto simp: before_start_def)
  next
    case False
    with a inv show ?thesis by auto
  qed
  have B: "before_start (st \<or> OnStart \<in> set o2) s2 \<and> (o2 = [] \<or> o2 = [OnStart])"
  proof (cases "\<not> dragStarted s1 \<and> nodeDragThreshold cfg < pointer_distance p s1")
    case True
    with b have "startDrag p items s1 = (s2, o2)" by simp
    from startDrag_state [OF this] True A show ?thesis
      by (auto simp: before_start_def)
  next
    case False
    with b A show ?thesis by (auto simp: before_start_def)
  qed
  have C: "before_start (st \<or> OnStart \<in> set o2) s3
           \<and> (o3 = [] \<or> o3 = [OnDrag] \<and> (st \<or> OnStart \<in> set o2))"
  proof (cases "(fst (lastPos s2) \<noteq> Some (xSnapped p) \<or> snd (lastPos s2) \<noteq> Some (ySnapped p))
         \<and> dragItems s2 \<noteq> [] \<and> dragStarted s2")
    case True
    with c have "updateNodes cfg calc (ptr_x p, ptr_y p) (s2\<lparr>dragEvent := True\<rparr>) = (s3, o3)"
      by simp
    from updateNodes_state [OF this] True B show ?thesis
      by (auto simp: before_start_def)
  next
    case False
    with c B show ?thesis by auto
  qed
  have o1: "o1 = [] \<or> o1 = [OnDrag] \<and> st" using A by simp
  have o2: "o2 = [] \<or> o2 = [OnStart]" using B by simp
  have o3: "o3 = [] \<or> o3 = [OnDrag] \<and> (st \<or> OnStart \<in> set o2)" using C by simp
  have first: "st \<or> start_first (o1 @ o2 @ o3)"
    using o1 o2 o3 by auto
  have mem: "(st \<or> OnStart \<in> set (o1 @ o2 @ o3)) = (st \<or> OnStart \<in> set o2)"
    using o1 o3 by auto
  from first mem C show ?thesis
    unfolding res by simp
qed

lemma step_before_start:
  assumes "before_start st s" and "step cfg s e = (s', out)"
  shows "(st \<or> start_first out) \<and> before_start (st \<or> OnStart \<in> set out) s'"
proof (cases e)
  case (EventStart p m items b)
  with assms eventStart_before_start show ?thesis by simp
next
  case (EventDrag p items ap calc)
  with assms eventDrag_before_start show ?thesis by simp
next
  case (EventEnd p)
  with assms eventEnd_before_start show ?thesis by simp
next
  case (AnimationFrame ap calc)
  with assms frame_before_start show ?thesis by simp
qed

lemma run_before_start:
  "before_start st s \<Longrightarrow> st \<or> start_first (snd (run cfg s es))"
proof (induction es arbitrary: st s)
  case Nil
  show ?case by simp
next
  case (Cons e es)
  obtain s1 out where st1: "step cfg s e = (s1, out)" by fastforce
  obtain s2 outs where rn: "run cfg s1 es = (s2, outs)" by fastforce
  from step_before_start [OF Cons.prems st1]
  have h: "st \<or> start_first out" "before_start (st \<or> OnStart \<in> set out) s1" by simp_all
  from Cons.IH [OF h(2)] rn have "st \<or> OnStart \<in> set out \<or> start_first outs" by simp
  with h(1) st1 rn show ?case
    by (auto simp: start_first_append)
qed

lemma run_append:
  "run cfg s (a @ b) =
     (let (s1, o1) = run cfg s a; (s2, o2) = run cfg s1 b in (s2, o1 @ o2))"
  by (induction a arbitrary: s) (auto simp: Let_def split: prod.splits)

lemma idle_before_start: "idle s \<Longrightarrow> before_start False s"
  by (simp add: idle_def before_start_def)

lemma pending_step:
  assumes "\<not> dragStarted s" and "\<not> autoPanScheduled s"
    and "lastPos s = (Some (ptr_x p0), Some (ptr_y p0))"
    and "pending_move cfg p0 e"
  shows "step cfg s e = (s, [])"
proof (cases e)
  case (EventDrag p items ap calc)
  from assms(3) have "pointer_distance p s = start_distance p0 p"
    by (simp add: pointer_distance_def start_distance_def or_0_def Let_def)
  with assms EventDrag show ?thesis
    by (simp add: eventDrag_def)
next
  case (AnimationFrame ap calc)
  with assms show ?thesis by simp
next
  case (EventStart p m items b)
  with assms show ?thesis by simp
next
  case (EventEnd p)
  with assms show ?thesis by simp
qed

lemma pending_run:
  assumes "\<not> dragStarted s" and "\<not> autoPanScheduled s"
    and "lastPos s = (Some (ptr_x p0), Some (ptr_y p0))"
    and "\<forall>e \<in> set moves. pending_move cfg p0 e"
  shows "run cfg s moves = (s, [])"
  using assms(4)
proof (induction moves)
  case Nil
  show ?case by simp
next
  case (Cons e es)
  then have "step cfg s e = (s, [])"
    using pending_step [OF assms(1-3)] by simp
  with Cons show ?case by simp
qed

lemma pending_gesture:
  assumes "0 < nodeDragThreshold cfg" and "idle s"
    and "\<forall>e \<in> set moves. pending_move cfg p0 e"
  shows "snd (run cfg s (EventStart p0 False items b # moves @ [EventEnd p]))
     = (if start_distance p0 p \<noteq> 0 \<and> start_distance p0 p \<le> nodeDragThreshold cfg
           \<and> onClick_given cfg
        then [OnClick] else [])"
proof -
  let ?s1 = "s\<lparr>lastPos := (Some (ptr_x p0), Some (ptr_y p0)), containerBounds := b\<rparr>"
  have st: "step cfg s (EventStart p0 False items b) = (?s1, [])"
    using assms(1) by (simp add: eventStart_def)
  have s1: "\<not> dragStarted ?s1" "\<not> autoPanScheduled ?s1"
    "lastPos ?s1 = (Some (ptr_x p0), Some (ptr_y p0))"
    using assms(2) by (simp_all add: idle_def)
  have mv: "run cfg ?s1 moves = (?s1, [])"
    using pending_run [OF s1 assms(3)] .
  have "pointer_distance p ?s1 = start_distance p0 p"
    by (simp add: pointer_distance_def start_distance_def or_0_def Let_def)
  then have en: "snd (run cfg ?s1 [EventEnd p])
     = (if start_distance p0 p \<noteq> 0 \<and> start_distance p0 p \<le> nodeDragThreshold cfg
           \<and> onClick_given cfg
        then [OnClick] else [])"
    using s1(1) by (simp add: eventEnd_def)
  have "snd (run cfg s (EventStart p0 False items b # moves @ [EventEnd p]))
      = snd (run cfg ?s1 (moves @ [EventEnd p]))"
    using st by (simp add: split_beta)
  also have "\<dots> = snd (run cfg ?s1 [EventEnd p])"
    unfolding run_append mv by (simp add: split_beta)
  finally show ?thesis using en by simp
qed

lemma exceeding_move:
  assumes "\<not> dragStarted s" and "nodeDragThreshold cfg < pointer_distance p s"
    and "items \<noteq> []"
  shows "\<exists>rest. snd (eventDrag cfg p items ap calc s) = OnStart # rest"
  using assms
  by (auto simp: eventDrag_def startDrag_def Let_def split: prod.splits)

lemma sqrt_9: "sqrt 9 = 3"
  by (rule real_sqrt_unique) simp_all

lemma sqrt_36: "sqrt 36 = 6"
  by (rule real_sqrt_unique) simp_all

text \<open>
  C7, as amended. With a positive threshold and starting between gestures: when every move
  of a gesture stays within the threshold, the release fires the click callback alone if
  the distance from the press is not zero, is within the threshold and a click callback
  was given, and fires nothing otherwise; no drag-start, drag-progress or drag-stop
  callback fires in such a gesture. In every run of events no drag-progress callback
  comes before the first drag-start callback, and a move beyond the threshold with drag
  items fires drag-start first.
\<close>

theorem drag_threshold:
  assumes "0 < nodeDragThreshold cfg" and "idle s"
  shows "((\<forall>e \<in> set moves. pending_move cfg p0 e) \<longrightarrow>
            snd (run cfg s (EventStart p0 False items0 b # moves @ [EventEnd p]))
              = (if start_distance p0 p \<noteq> 0 \<and> start_distance p0 p \<le> nodeDragThreshold cfg
                    \<and> onClick_given cfg
                 then [OnClick] else []))
       \<and> start_first (snd (run cfg s es))
       \<and> (nodeDragThreshold cfg < pointer_distance q s \<and> items \<noteq> [] \<longrightarrow>
            (\<exists>rest. snd (eventDrag cfg q items ap calc s) = OnStart # rest))"
proof -
  have "\<not> dragStarted s" using assms(2) by (simp add: idle_def)
  then have c: "nodeDragThreshold cfg < pointer_distance q s \<and> items \<noteq> [] \<longrightarrow>
            (\<exists>rest. snd (eventDrag cfg q items ap calc s) = OnStart # rest)"
    using exceeding_move by blast
  have b: "start_first (snd (run cfg s es))"
    using run_before_start [OF idle_before_start [OF assms(2)]] by simp
  from pending_gesture [OF assms] b c show ?thesis by blast
qed

lemma six_then_seven:
  "snd (run threshold5 initial
        [EventStart (at_point 0 0) False [still_item] True,
         EventDrag (at_point 6 0) [still_item] no_pan unclamped,
         EventDrag (at_point 7 0) [still_item] no_pan unclamped]) = [OnStart, OnDrag]"
  by (simp add: eventStart_def eventDrag_def startDrag_def updateNodes_def move_item_def
      pointer_distance_def or_0_def threshold5_def initial_def at_point_def still_item_def
      unclamped_def sqrt_36 Let_def)

text \<open>
  The scenario of the specification with threshold \<open>5\<close>: moving \<open>3\<close> units and releasing
  fires the click callback only; moving \<open>6\<close> and then \<open>7\<close> units fires drag-start and then
  drag-progress.
\<close>

theorem drag_threshold_witness:
  "0 < nodeDragThreshold threshold5 \<and> idle initial
   \<and> snd (run threshold5 initial
        [EventStart (at_point 0 0) False [still_item] True,
         EventDrag (at_point 3 0) [still_item] no_pan unclamped,
         EventEnd (at_point 3 0)]) = [OnClick]
   \<and> start_first (snd (run threshold5 initial
        [EventStart (at_point 0 0) False [still_item] True,
         EventDrag (at_point 6 0) [still_item] no_pan unclamped,
         EventDrag (at_point 7 0) [still_item] no_pan unclamped]))
   \<and> snd (run threshold5 initial
        [EventStart (at_point 0 0) False [still_item] True,
         EventDrag (at_point 6 0) [still_item] no_pan unclamped,
         EventDrag (at_point 7 0) [still_item] no_pan unclamped]) = [OnStart, OnDrag]"
proof -
  have t: "0 < nodeDragThreshold threshold5" by (simp add: threshold5_def)
  have i: "idle initial" by (simp add: idle_def initial_def)
  have d: "start_distance (at_point 0 0) (at_point 3 0) = 3"
    by (simp add: start_distance_def at_point_def sqrt_9)
  have m: "\<forall>e \<in> set [EventDrag (at_point 3 0) [still_item] no_pan unclamped].
      pending_move threshold5 (at_point 0 0) e"
    by (simp add: d) (simp add: threshold5_def)
  from drag_threshold [OF t i, of "[EventDrag (at_point 3 0) [still_item] no_pan unclamped]"
      "at_point 0 0" "[still_item]" True "at_point 3 0"
      "[EventStart (at_point 0 0) False [still_item] True,
         EventDrag (at_point 6 0) [still_item] no_pan unclamped,
         EventDrag (at_point 7 0) [still_item] no_pan unclamped]"] m
  have "snd (run threshold5 initial
        (EventStart (at_point 0 0) False [still_item] True #
         [EventDrag (at_point 3 0) [still_item] no_pan unclamped] @
         [EventEnd (at_point 3 0)])) = [OnClick]"
    and "start_first (snd (run threshold5 initial
        [EventStart (at_point 0 0) False [still_item] True,
         EventDrag (at_point 6 0) [still_item] no_pan unclamped,
         EventDrag (at_point 7 0) [still_item] no_pan unclamped]))"
    by (simp_all add: d del: run.simps) (simp add: threshold5_def)
  with t i six_then_seven show ?thesis by simp
qed

text \<open>
  Pressing and releasing without moving is a release within the threshold, and fires no
  click callback.
\<close>

theorem release_in_place_counterexample:
  "0 < nodeDragThreshold threshold5 \<and> idle initial \<and> onClick_given threshold5
   \<and> start_distance (at_point 0 0) (at_point 0 0) \<le> nodeDragThreshold threshold5
   \<and> OnClick \<notin> set (snd (run threshold5 initial
        [EventStart (at_point 0 0) False [still_item] True, EventEnd (at_point 0 0)]))"
  by (simp add: eventStart_def eventEnd_def pointer_distance_def start_distance_def or_0_def
      threshold5_def initial_def at_point_def idle_def Let_def)

end
